theory Spec2Isabelle
  imports Complex_Main
begin

section \<open>JavaScript numbers\<close>

text \<open>
  A JavaScript \<^verbatim>\<open>number\<close> is a finite value, one of the two infinities, or NaN.
  Finite values are carried exactly (\<open>real\<close> for arbitrary numbers, \<open>int\<close> for the
  integer-valued numbers that \<^verbatim>\<open>Math.round\<close> returns); binary rounding of the
  arithmetic and the sign of zero are left out, except in \<open>div1000\<close> below, where
  the rounding of the quotient decides a printed digit.
\<close>

datatype 'a ext = Fin 'a | PInf | NInf | NaN

type_synonym jsnum = "real ext"
type_synonym jsint = "int ext"

fun num :: "jsint \<Rightarrow> jsnum" where
  "num (Fin i) = Fin (of_int i)"
| "num PInf = PInf"
| "num NInf = NInf"
| "num NaN = NaN"

fun jadd :: "jsnum \<Rightarrow> jsnum \<Rightarrow> jsnum" where
  "jadd (Fin a) (Fin b) = Fin (a + b)"
| "jadd NaN _ = NaN"
| "jadd _ NaN = NaN"
| "jadd PInf NInf = NaN"
| "jadd NInf PInf = NaN"
| "jadd PInf _ = PInf"
| "jadd _ PInf = PInf"
| "jadd NInf _ = NInf"
| "jadd _ NInf = NInf"

text \<open>The sign of an infinite product or quotient, given the finite factor.\<close>

definition signed_inf :: "real \<Rightarrow> jsnum" where
  "signed_inf s = (if 0 < s then PInf else if s < 0 then NInf else NaN)"

fun jmul :: "jsnum \<Rightarrow> jsnum \<Rightarrow> jsnum" where
  "jmul (Fin a) (Fin b) = Fin (a * b)"
| "jmul NaN _ = NaN"
| "jmul _ NaN = NaN"
| "jmul PInf (Fin b) = signed_inf b"
| "jmul (Fin a) PInf = signed_inf a"
| "jmul NInf (Fin b) = signed_inf (- b)"
| "jmul (Fin a) NInf = signed_inf (- a)"
| "jmul PInf PInf = PInf"
| "jmul NInf NInf = PInf"
| "jmul PInf NInf = NInf"
| "jmul NInf PInf = NInf"

text \<open>
  Division. A zero divisor is the positive zero (the only zero the program divides by
  is a difference of two clock readings), so a finite dividend over zero takes the
  dividend's sign.
\<close>

fun jdiv :: "jsnum \<Rightarrow> jsnum \<Rightarrow> jsnum" where
  "jdiv (Fin a) (Fin b) = (if b = 0 then signed_inf a else Fin (a / b))"
| "jdiv NaN _ = NaN"
| "jdiv _ NaN = NaN"
| "jdiv (Fin a) PInf = Fin 0"
| "jdiv (Fin a) NInf = Fin 0"
| "jdiv PInf (Fin b) = (if 0 \<le> b then PInf else NInf)"
| "jdiv NInf (Fin b) = (if 0 \<le> b then NInf else PInf)"
| "jdiv PInf PInf = NaN"
| "jdiv PInf NInf = NaN"
| "jdiv NInf PInf = NaN"
| "jdiv NInf NInf = NaN"

text \<open>\<^verbatim>\<open>a > b\<close> and \<^verbatim>\<open>a >= b\<close>: every comparison with NaN is false.\<close>

fun jgt :: "('a::linorder) ext \<Rightarrow> 'a ext \<Rightarrow> bool" where
  "jgt (Fin a) (Fin b) = (b < a)"
| "jgt NaN _ = False"
| "jgt _ NaN = False"
| "jgt PInf PInf = False"
| "jgt PInf _ = True"
| "jgt _ PInf = False"
| "jgt NInf _ = False"
| "jgt _ NInf = True"

fun jge :: "('a::linorder) ext \<Rightarrow> 'a ext \<Rightarrow> bool" where
  "jge (Fin a) (Fin b) = (b \<le> a)"
| "jge NaN _ = False"
| "jge _ NaN = False"
| "jge PInf _ = True"
| "jge NInf NInf = True"
| "jge NInf _ = False"
| "jge _ NInf = True"
| "jge _ PInf = False"

text \<open>\<^verbatim>\<open>Math.round\<close>: the nearest integer, a half rounding up.\<close>

fun Math_round :: "jsnum \<Rightarrow> jsint" where
  "Math_round (Fin x) = Fin \<lfloor>x + 1 / 2\<rfloor>"
| "Math_round PInf = PInf"
| "Math_round NInf = NInf"
| "Math_round NaN = NaN"

text \<open>Truthiness of a number: zero and NaN are falsy.\<close>

fun truthy :: "('a::zero) ext \<Rightarrow> bool" where
  "truthy (Fin a) = (a \<noteq> 0)"
| "truthy NaN = False"
| "truthy _ = True"

text \<open>\<^verbatim>\<open>a || b\<close> on numbers.\<close>

definition js_or :: "('a::zero) ext \<Rightarrow> 'a ext \<Rightarrow> 'a ext" where
  "js_or a b = (if truthy a then a else b)"

section \<open>The device classifier\<close>

datatype device_class = flagship | high_end | mid_range | entry_level

text \<open>\<^verbatim>\<open>(int8Score * 0.5) + (fp16Score * 0.3) + (fp32Score * 0.2)\<close>\<close>

definition weightedScore :: "jsnum \<Rightarrow> jsnum \<Rightarrow> jsnum \<Rightarrow> jsnum" where
  "weightedScore int8Score fp16Score fp32Score =
     jadd (jadd (jmul int8Score (Fin (5 / 10))) (jmul fp16Score (Fin (3 / 10))))
          (jmul fp32Score (Fin (2 / 10)))"

definition classifyAIDevice :: "jsnum \<Rightarrow> jsnum \<Rightarrow> jsnum \<Rightarrow> device_class" where
  "classifyAIDevice int8Score fp16Score fp32Score =
     (let w = weightedScore int8Score fp16Score fp32Score in
      if jgt w (Fin 4000) \<and> jgt int8Score (Fin 5000) then flagship
      else if jgt w (Fin 2500) \<and> jgt int8Score (Fin 3000) then high_end
      else if jgt w (Fin 1500) then mid_range
      else entry_level)"

text \<open>The legacy entry point, kept by the source for backward compatibility.\<close>

definition classifyDevice :: "jsnum \<Rightarrow> jsnum \<Rightarrow> jsnum \<Rightarrow> device_class" where
  "classifyDevice singleCore multiCore aiScore =
     classifyAIDevice aiScore (jmul aiScore (Fin (8 / 10))) (jmul aiScore (Fin (6 / 10)))"

text \<open>The order entry-level < mid-range < high-end < flagship.\<close>

fun class_rank :: "device_class \<Rightarrow> nat" where
  "class_rank entry_level = 0"
| "class_rank mid_range = 1"
| "class_rank high_end = 2"
| "class_rank flagship = 3"

section \<open>Strings\<close>

text \<open>
  Strings are lists of 8-bit characters. The user-agent and platform strings are only
  ever searched for ASCII words, and neither \<^verbatim>\<open>toLowerCase\<close> nor the \<^verbatim>\<open>/i\<close>
  flag of a regular expression maps a character above 127 to an ASCII one or back, so
  folding the letters A-Z is all the case conversion these searches can observe.
\<close>

definition lower_char :: "char \<Rightarrow> char" where
  "lower_char c =
     (case map_of (zip ''ABCDEFGHIJKLMNOPQRSTUVWXYZ'' ''abcdefghijklmnopqrstuvwxyz'') c of
        None \<Rightarrow> c
      | Some l \<Rightarrow> l)"

definition toLowerCase :: "string \<Rightarrow> string" where
  "toLowerCase s = map lower_char s"

fun starts_with :: "string \<Rightarrow> string \<Rightarrow> bool" where
  "starts_with s [] = True"
| "starts_with [] (p # ps) = False"
| "starts_with (c # cs) (p # ps) = (c = p \<and> starts_with cs ps)"

text \<open>\<^verbatim>\<open>s.includes(p)\<close>\<close>

fun str_includes :: "string \<Rightarrow> string \<Rightarrow> bool" where
  "str_includes [] p = (p = [])"
| "str_includes (c # cs) p = (starts_with (c # cs) p \<or> str_includes cs p)"

text \<open>\<^verbatim>\<open>/p/i.test(s)\<close> for a lower-case ASCII word \<open>p\<close>.\<close>

definition test_i :: "string \<Rightarrow> string \<Rightarrow> bool" where
  "test_i p s = str_includes (toLowerCase s) p"

definition line_terminator :: "char \<Rightarrow> bool" where
  "line_terminator c = ((of_char c :: nat) = 10 \<or> (of_char c :: nat) = 13)"

text \<open>
  \<^verbatim>\<open>/android(?!.*mobi)/i\<close>: some occurrence of the word is not followed, on the
  same line, by \<^verbatim>\<open>mobi\<close>.
\<close>

fun android_not_mobi :: "string \<Rightarrow> bool" where
  "android_not_mobi [] = False"
| "android_not_mobi (c # cs) =
     ((starts_with (c # cs) ''android'' \<and>
       \<not> str_includes (takeWhile (\<lambda>x. \<not> line_terminator x) (drop 7 (c # cs))) ''mobi'')
      \<or> android_not_mobi cs)"

definition is_digit :: "char \<Rightarrow> bool" where
  "is_digit c = (let n = (of_char c :: nat) in 48 \<le> n \<and> n \<le> 57)"

text \<open>A word followed by at least one decimal digit, as in \<^verbatim>\<open>/iPhone(\d+)/\<close>.\<close>

fun word_then_digit :: "string \<Rightarrow> string \<Rightarrow> bool" where
  "word_then_digit w [] = False"
| "word_then_digit w (c # cs) =
     ((starts_with (c # cs) w \<and>
       (case drop (length w) (c # cs) of [] \<Rightarrow> False | d # _ \<Rightarrow> is_digit d))
      \<or> word_then_digit w cs)"

section \<open>Printing numbers\<close>

definition digit_char :: "nat \<Rightarrow> char" where
  "digit_char d = ''0123456789'' ! d"

text \<open>The decimal digits of a natural number, most significant first.\<close>

fun dec_nat :: "nat \<Rightarrow> string" where
  "dec_nat n = (if n < 10 then [digit_char n] else dec_nat (n div 10) @ [digit_char (n mod 10)])"

text \<open>
  \<^verbatim>\<open>Number.prototype.toString\<close> on an integer-valued number. Integers of
  magnitude \<open>10^21\<close> and more print in exponent form, which is not modelled: the
  statements below stay under \<open>2^53\<close>.
\<close>

fun toString :: "jsint \<Rightarrow> string" where
  "toString (Fin i) = (if i < 0 then ''-'' @ dec_nat (nat (- i)) else dec_nat (nat i))"
| "toString PInf = ''Infinity''"
| "toString NInf = ''-Infinity''"
| "toString NaN = ''NaN''"

text \<open>
  \<^verbatim>\<open>x.toFixed(1)\<close>: with \<open>n\<close> the integer nearest to \<open>10 * x\<close> (the larger one
  of two equally near), the digits of \<open>n\<close> with a point before the last. A negative
  \<open>x\<close> prints as the minus sign and \<open>- x\<close>. Values of magnitude \<open>10^21\<close> and more
  print in exponent form, which is not modelled.
\<close>

definition fixed1_digits :: "real \<Rightarrow> string" where
  "fixed1_digits x =
     (let n = nat \<lfloor>10 * x + 1 / 2\<rfloor> in dec_nat (n div 10) @ ''.'' @ [digit_char (n mod 10)])"

fun toFixed1 :: "jsnum \<Rightarrow> string" where
  "toFixed1 (Fin x) = (if x < 0 then ''-'' @ fixed1_digits (- x) else fixed1_digits x)"
| "toFixed1 PInf = ''Infinity''"
| "toFixed1 NInf = ''-Infinity''"
| "toFixed1 NaN = ''NaN''"

text \<open>
  \<^verbatim>\<open>score / 1000\<close> in binary floating point. The quotient of two doubles is the
  double nearest to the exact quotient, ties going to the even significand. For an
  integer \<open>s\<close> with \<open>1000 \<le> s < 2^53\<close> the quotient lies in \<open>[2^e, 2^(e+1))\<close>
  with \<open>e = ilog2 (s div 1000) \<le> 43\<close>, where doubles are the multiples of
  \<open>2^(e-52)\<close>.
\<close>

fun ilog2 :: "nat \<Rightarrow> nat" where
  "ilog2 n = (if n < 2 then 0 else Suc (ilog2 (n div 2)))"

definition round_half_even :: "int \<Rightarrow> int \<Rightarrow> int" where
  "round_half_even a b =
     (let q = a div b; r = a mod b in
      if 2 * r < b then q
      else if b < 2 * r then q + 1
      else if even q then q else q + 1)"

definition div1000 :: "int \<Rightarrow> real" where
  "div1000 s =
     (let k = 52 - ilog2 (nat (s div 1000)) in
      of_int (round_half_even (s * 2 ^ k) 1000) / 2 ^ k)"

fun jdiv1000 :: "jsint \<Rightarrow> jsnum" where
  "jdiv1000 (Fin s) = Fin (div1000 s)"
| "jdiv1000 PInf = PInf"
| "jdiv1000 NInf = NInf"
| "jdiv1000 NaN = NaN"

text \<open>
  \<^verbatim>\<open>formatScore\<close>. Its arguments in the program are the outputs of
  \<^verbatim>\<open>Math.round\<close> (or the literal 0), hence integer-valued.
\<close>

definition formatScore :: "jsint \<Rightarrow> string" where
  "formatScore score =
     (if jge score (Fin 10000) then toFixed1 (jdiv1000 score) @ ''K'' else toString score)"

section \<open>Results and recommendations\<close>

record DeviceInfo =
  processor :: string
  gpu :: "string option"
  npu :: "string option"
  ramGB :: real
  cores :: nat

record GeekbenchResult =
  int8Score :: jsint
  fp16Score :: jsint
  fp32Score :: jsint
  overallScore :: jsint
  deviceClass :: device_class
  benchmarkDate :: string
  deviceInfo :: DeviceInfo
  singleCoreScore :: jsint
  multiCoreScore :: jsint
  aiScore :: jsint

datatype plan = free | compute | premium

record Recommendation =
  plan :: plan
  message :: string

definition getRecommendation :: "GeekbenchResult \<Rightarrow> Recommendation" where
  "getRecommendation result =
     (let hasGoodINT8 = (truthy (int8Score result) \<and> jgt (int8Score result) (Fin 3000));
          hasFP16Support = (truthy (fp16Score result) \<and> jgt (fp16Score result) (Fin 2000))
      in case deviceClass result of
        flagship \<Rightarrow>
          \<lparr>plan = free,
           message = ''Excellent AI acceleration! INT8: ''
             @ formatScore (js_or (int8Score result) (Fin 0)) @ '', FP16: ''
             @ formatScore (js_or (fp16Score result) (Fin 0))
             @ ''. Your device can run quantized models locally with strong inference performance.''\<rparr>
      | high_end \<Rightarrow>
          \<lparr>plan = compute,
           message = ''Great quantization support! INT8: ''
             @ formatScore (js_or (int8Score result) (Fin 0)) @ ''. ''
             @ (if hasGoodINT8 then ''Local INT8 models recommended''
                else ''Hybrid mode with cloud FP16'')
             @ '' for optimal performance.''\<rparr>
      | mid_range \<Rightarrow>
          \<lparr>plan = compute,
           message = ''Decent AI capabilities (INT8: ''
             @ formatScore (js_or (int8Score result) (Fin 0)) @ ''). ''
             @ (if hasFP16Support then ''FP16 models via cloud'' else ''INT8 quantized models'')
             @ '' recommended.''\<rparr>
      | entry_level \<Rightarrow>
          \<lparr>plan = premium,
           message = ''Limited quantization support (INT8: ''
             @ formatScore (js_or (int8Score result) (Fin 0))
             @ ''). Cloud-based FP16/FP32 inference recommended for best accuracy.''\<rparr>)"

section \<open>The browser\<close>

text \<open>
  What the program reads from its platform. A call that can throw returns a sum, the
  exception on the left. \<^verbatim>\<open>navigator.platform\<close> and \<^verbatim>\<open>navigator.userAgent\<close>
  are strings, as the \<^verbatim>\<open>Navigator\<close> type declares them; the signals the program
  guards (\<^verbatim>\<open>hardwareConcurrency\<close>, \<^verbatim>\<open>deviceMemory\<close>, the storage manager,
  the rendering context) may be absent. \<open>now\<close> lists the successive readings of
  \<^verbatim>\<open>performance.now()\<close>; the functions that read the clock take the number of
  readings made so far and return the new count.
\<close>

datatype js_error = TypeError | ReferenceError | DOMException | Error string

datatype renderer_info = NoDebugInfo | Unmasked "string option"

record gl_context =
  renderer :: renderer_info
  half_float :: bool
  shader_failure :: "js_error option"

datatype storage_api =
    NoStorage
  | NoEstimate
  | EstimateRejects js_error
  | Estimate "real option" "real option"

datatype worker_behaviour = SpawnThrows js_error | Responds | Silent

record browser =
  hardwareConcurrency :: "nat option"
  deviceMemory :: "real option"
  platform :: string
  userAgent :: string
  has_ml :: bool
  storage :: storage_api
  createElement :: "js_error + unit"
  getContext :: "string \<Rightarrow> js_error + gl_context option"
  now :: "nat \<Rightarrow> real"
  workerSetup :: "js_error + unit"
  spawn :: "nat \<Rightarrow> worker_behaviour"
  isoDate :: string

text \<open>\<^verbatim>\<open>navigator.hardwareConcurrency || 2\<close>\<close>

definition cores_or_2 :: "browser \<Rightarrow> nat" where
  "cores_or_2 b = (case hardwareConcurrency b of None \<Rightarrow> 2 | Some n \<Rightarrow> if n = 0 then 2 else n)"

text \<open>\<^verbatim>\<open>x || d\<close> for a number that may be missing.\<close>

definition or_default :: "real option \<Rightarrow> real \<Rightarrow> real" where
  "or_default x d = (case x of None \<Rightarrow> d | Some v \<Rightarrow> if v = 0 then d else v)"

text \<open>
  \<^verbatim>\<open>document.createElement('canvas')\<close>, then
  \<^verbatim>\<open>canvas.getContext(n1) || canvas.getContext(n2)\<close>.
\<close>

definition first_context :: "browser \<Rightarrow> string \<Rightarrow> string \<Rightarrow> js_error + gl_context option" where
  "first_context b n1 n2 =
     (case createElement b of
        Inl e \<Rightarrow> Inl e
      | Inr _ \<Rightarrow>
          (case getContext b n1 of
             Inl e \<Rightarrow> Inl e
           | Inr (Some g) \<Rightarrow> Inr (Some g)
           | Inr None \<Rightarrow> getContext b n2))"

section \<open>The timed probes\<close>

text \<open>\<^verbatim>\<open>Math.round(c / (duration / k))\<close>\<close>

definition timed_score :: "real \<Rightarrow> real \<Rightarrow> real \<Rightarrow> jsint" where
  "timed_score c k duration = Math_round (jdiv (Fin c) (jdiv (Fin duration) (Fin k)))"

definition testINT8Quantization :: "browser \<Rightarrow> nat \<Rightarrow> jsint \<times> nat" where
  "testINT8Quantization b t = (timed_score 50000 100 (now b (t + 1) - now b t), t + 2)"

definition testFP32Quantization :: "browser \<Rightarrow> nat \<Rightarrow> jsint \<times> nat" where
  "testFP32Quantization b t = (timed_score 30000 100 (now b (t + 1) - now b t), t + 2)"

definition testSingleCore :: "browser \<Rightarrow> nat \<Rightarrow> jsint \<times> nat" where
  "testSingleCore b t = (timed_score 10000 100 (now b (t + 1) - now b t), t + 2)"

text \<open>
  The body of the \<^verbatim>\<open>try\<close> of \<^verbatim>\<open>testFP16Quantization\<close>: the clock is read
  once before the shaders are built and once after.
\<close>

definition testFP16_try :: "browser \<Rightarrow> nat \<Rightarrow> (js_error + jsint) \<times> nat" where
  "testFP16_try b t =
     (case first_context b ''webgl2'' ''webgl'' of
        Inl e \<Rightarrow> (Inl e, t)
      | Inr None \<Rightarrow>
          (let (s, t') = testINT8Quantization b t
           in (Inr (Math_round (jmul (num s) (Fin (7 / 10)))), t'))
      | Inr (Some gl) \<Rightarrow>
          (case shader_failure gl of
             Some e \<Rightarrow> (Inl e, t + 1)
           | None \<Rightarrow>
               (let duration = now b (t + 1) - now b t
                in (Inr (if half_float gl then timed_score 40000 10 duration
                         else timed_score 30000 10 duration), t + 2))))"

definition testFP16Quantization :: "browser \<Rightarrow> nat \<Rightarrow> jsint \<times> nat" where
  "testFP16Quantization b t =
     (case testFP16_try b t of
        (Inr s, t') \<Rightarrow> (s, t')
      | (Inl e, t') \<Rightarrow>
          (let (s, t'') = testINT8Quantization b t'
           in (Math_round (jmul (num s) (Fin (75 / 100))), t'')))"

text \<open>
  The loop that creates one worker per core and posts it its task. It stops at the first
  creation that throws; otherwise it tells whether every worker will answer.
\<close>

fun spawn_all :: "worker_behaviour list \<Rightarrow> js_error + bool" where
  "spawn_all [] = Inr True"
| "spawn_all (SpawnThrows e # ws) = Inl e"
| "spawn_all (Responds # ws) = spawn_all ws"
| "spawn_all (Silent # ws) = (case spawn_all ws of Inl e \<Rightarrow> Inl e | Inr _ \<Rightarrow> Inr False)"

text \<open>
  The body of the \<^verbatim>\<open>try\<close> of \<^verbatim>\<open>testMultiCore\<close>. Each worker's promise is
  resolved by the worker's answer and by nothing else, so
  \<^verbatim>\<open>await Promise.all(promises)\<close> never resumes when a worker stays silent: the
  result is \<open>None\<close>.
\<close>

definition testMultiCore_try :: "nat \<Rightarrow> browser \<Rightarrow> nat \<Rightarrow> ((js_error + jsint) \<times> nat) option" where
  "testMultiCore_try n b t =
     (case workerSetup b of
        Inl e \<Rightarrow> Some (Inl e, t)
      | Inr _ \<Rightarrow>
          (case spawn_all (map (spawn b) [0..<n]) of
             Inl e \<Rightarrow> Some (Inl e, t + 1)
           | Inr False \<Rightarrow> None
           | Inr True \<Rightarrow>
               (let duration = now b (t + 1) - now b t
                in Some (Inr (Math_round (jdiv (Fin (real n * 10000))
                                               (jdiv (Fin duration) (Fin 100)))), t + 2))))"

definition testMultiCore :: "nat \<Rightarrow> browser \<Rightarrow> nat \<Rightarrow> (jsint \<times> nat) option" where
  "testMultiCore n b t =
     (case testMultiCore_try n b t of
        None \<Rightarrow> None
      | Some (Inr s, t') \<Rightarrow> Some (s, t')
      | Some (Inl e, t') \<Rightarrow>
          (let (s, t'') = testSingleCore b t'
           in Some (Math_round (jmul (jmul (num s) (Fin (real n))) (Fin (8 / 10))), t'')))"

section \<open>The benchmark run\<close>

definition detectNPU :: "browser \<Rightarrow> string option" where
  "detectNPU b =
     (let ua = userAgent b in
      if str_includes ua ''Apple'' \<and>
         (word_then_digit ''iPhone'' ua \<or> word_then_digit ''iPad'' ua \<or> str_includes ua ''Mac'')
      then Some ''Apple Neural Engine''
      else if str_includes ua ''Snapdragon'' then Some ''Qualcomm Hexagon NPU''
      else if str_includes ua ''Exynos'' then Some ''Samsung NPU''
      else if str_includes ua ''MediaTek'' then Some ''MediaTek APU''
      else if has_ml b then Some ''WebNN ML Accelerator''
      else None)"

definition getProcessorInfo :: "browser \<Rightarrow> string" where
  "getProcessorInfo b =
     (let ua = userAgent b in
      if str_includes ua ''Intel'' then ''Intel''
      else if str_includes ua ''AMD'' then ''AMD''
      else if str_includes ua ''Apple'' then ''Apple Silicon''
      else if str_includes ua ''Snapdragon'' then ''Snapdragon''
      else if str_includes ua ''Exynos'' then ''Exynos''
      else if str_includes ua ''MediaTek'' then ''MediaTek''
      else ''Unknown CPU'')"

text \<open>The renderer that \<^verbatim>\<open>getParameter\<close> hands back may be null: \<open>None\<close>.\<close>

definition getGPUInfo_try :: "browser \<Rightarrow> js_error + string option" where
  "getGPUInfo_try b =
     (case first_context b ''webgl'' ''experimental-webgl'' of
        Inl e \<Rightarrow> Inl e
      | Inr None \<Rightarrow> Inr (Some ''No GPU'')
      | Inr (Some gl) \<Rightarrow>
          (case renderer gl of
             Unmasked r \<Rightarrow> Inr r
           | NoDebugInfo \<Rightarrow> Inr (Some ''WebGL GPU'')))"

definition getGPUInfo :: "browser \<Rightarrow> string option" where
  "getGPUInfo b = (case getGPUInfo_try b of Inl e \<Rightarrow> Some ''Unknown GPU'' | Inr g \<Rightarrow> g)"

text \<open>
  \<^verbatim>\<open>runAIBenchmark\<close>, started when the clock has been read \<open>t\<close> times. The result
  is \<open>None\<close> when the run never completes.
\<close>

definition runAIBenchmark :: "browser \<Rightarrow> nat \<Rightarrow> (GeekbenchResult \<times> nat) option" where
  "runAIBenchmark b t =
     (let n = cores_or_2 b;
          ram = or_default (deviceMemory b) 4;
          gpu_info = getGPUInfo b;
          npu_info = detectNPU b;
          (int8, t1) = testINT8Quantization b t;
          (fp16, t2) = testFP16Quantization b t1;
          (fp32, t3) = testFP32Quantization b t2;
          overall = Math_round
            (jadd (jadd (jmul (num int8) (Fin (5 / 10))) (jmul (num fp16) (Fin (3 / 10))))
                  (jmul (num fp32) (Fin (2 / 10))));
          (single, t4) = testSingleCore b t3
      in case testMultiCore n b t4 of
           None \<Rightarrow> None
         | Some (multi, t5) \<Rightarrow>
             (let cls = classifyAIDevice (num int8) (num fp16) (num fp32)
              in Some
                (\<lparr>int8Score = int8,
                  fp16Score = fp16,
                  fp32Score = fp32,
                  overallScore = overall,
                  deviceClass = cls,
                  benchmarkDate = isoDate b,
                  deviceInfo =
                    \<lparr>processor = getProcessorInfo b,
                     gpu = gpu_info,
                     npu = npu_info,
                     ramGB = ram,
                     cores = n\<rparr>,
                  singleCoreScore = single,
                  multiCoreScore = multi,
                  aiScore = overall\<rparr>, t5)))"

section \<open>Saving a result\<close>







section \<open>Device detection\<close>

datatype device_type = mobile | desktop | tablet

record DeviceSpecs =
  type :: device_type
  os :: string
  cpuCores :: nat
  ramGB :: real
  gpuAvailable :: bool
  storageGB :: real
  isFlagship :: bool
  recommendedPlan :: plan

definition getDeviceType :: "browser \<Rightarrow> device_type" where
  "getDeviceType b =
     (let ua = toLowerCase (userAgent b) in
      if test_i ''tablet'' ua \<or> test_i ''ipad'' ua \<or> test_i ''playbook'' ua \<or> test_i ''silk'' ua
         \<or> android_not_mobi (toLowerCase ua)
      then tablet
      else if test_i ''mobile'' ua \<or> test_i ''iphone'' ua \<or> test_i ''ipod'' ua
              \<or> test_i ''blackberry'' ua \<or> test_i ''opera mini'' ua \<or> test_i ''iemobile'' ua
              \<or> test_i ''wpdesktop'' ua
      then mobile
      else desktop)"

definition getOS :: "browser \<Rightarrow> string" where
  "getOS b =
     (let ua = userAgent b in
      if test_i ''windows'' ua then ''Windows''
      else if test_i ''macintosh'' ua \<or> test_i ''mac os x'' ua then ''macOS''
      else if test_i ''linux'' ua then ''Linux''
      else if test_i ''android'' ua then ''Android''
      else if test_i ''iphone'' ua \<or> test_i ''ipad'' ua \<or> test_i ''ipod'' ua then ''iOS''
      else ''Unknown'')"

definition estimateRAM :: "browser \<Rightarrow> real" where
  "estimateRAM b =
     (let n = cores_or_2 b;
          p = toLowerCase (platform b)
      in if str_includes p ''win'' \<or> str_includes p ''mac'' \<or> str_includes p ''linux''
         then (if 8 \<le> n then 16 else if 4 \<le> n then 8 else 4)
         else if 8 \<le> n then 8
         else if 6 \<le> n then 6
         else if 4 \<le> n then 4
         else 2)"

definition checkGPUAvailability_try :: "browser \<Rightarrow> js_error + bool" where
  "checkGPUAvailability_try b =
     (case first_context b ''webgl2'' ''webgl'' of
        Inl e \<Rightarrow> Inl e
      | Inr None \<Rightarrow> Inr False
      | Inr (Some gl) \<Rightarrow>
          (case renderer gl of
             Unmasked None \<Rightarrow> Inl TypeError
           | Unmasked (Some r) \<Rightarrow> Inr (\<not> str_includes (toLowerCase r) ''swiftshader'')
           | NoDebugInfo \<Rightarrow> Inr True))"

definition checkGPUAvailability :: "browser \<Rightarrow> js_error + bool" where
  "checkGPUAvailability b =
     (case checkGPUAvailability_try b of Inl e \<Rightarrow> Inr False | Inr v \<Rightarrow> Inr v)"

definition estimateStorage :: "browser \<Rightarrow> js_error + real" where
  "estimateStorage b =
     (case storage b of
        NoStorage \<Rightarrow> Inr 64
      | NoEstimate \<Rightarrow> Inr 64
      | EstimateRejects e \<Rightarrow> Inr 64
      | Estimate quota usage \<Rightarrow>
          (let quotaGB = or_default quota 0 / (1024 * 1024 * 1024);
               usageGB = or_default usage 0 / (1024 * 1024 * 1024)
           in Inr (max (quotaGB - usageGB) 0)))"

text \<open>
  \<^verbatim>\<open>detectDeviceCapabilities\<close>: an awaited call that rejected would reject the whole
  function, which is the left of the sum.
\<close>

definition detectDeviceCapabilities :: "browser \<Rightarrow> js_error + DeviceSpecs" where
  "detectDeviceCapabilities b =
     (let n = cores_or_2 b;
          deviceMemoryGB = (case deviceMemory b of
                              None \<Rightarrow> estimateRAM b
                            | Some m \<Rightarrow> if m = 0 then estimateRAM b else m)
      in case checkGPUAvailability b of
           Inl e \<Rightarrow> Inl e
         | Inr hasGPU \<Rightarrow>
             (case estimateStorage b of
                Inl e \<Rightarrow> Inl e
              | Inr free_gb \<Rightarrow>
                  (let flag = (4 \<le> n \<and> 6 \<le> deviceMemoryGB \<and> 64 \<le> free_gb \<and> hasGPU)
                   in Inr \<lparr>type = getDeviceType b,
                           os = getOS b,
                           cpuCores = n,
                           ramGB = deviceMemoryGB,
                           gpuAvailable = hasGPU,
                           storageGB = free_gb,
                           isFlagship = flag,
                           recommendedPlan =
                             (if flag then free
                              else if 4 \<le> n \<and> 4 \<le> deviceMemoryGB then compute
                              else premium)\<rparr>)))"

section \<open>Reading a printed number back\<close>

definition digit_value :: "char \<Rightarrow> nat" where
  "digit_value c = of_char c - 48"

text \<open>The number that a string of decimal digits denotes.\<close>

definition dec_value :: "string \<Rightarrow> nat" where
  "dec_value s = foldl (\<lambda>a c. 10 * a + digit_value c) 0 s"

section \<open>Sample platforms\<close>

definition sample_gl :: gl_context where
  "sample_gl = \<lparr>renderer = Unmasked (Some ''Apple M1''), half_float = True, shader_failure = None\<rparr>"

text \<open>An eight-core desktop whose clock advances 100 ms between two readings.\<close>

definition sample_browser :: browser where
  "sample_browser =
     \<lparr>hardwareConcurrency = Some 8,
      deviceMemory = Some 8,
      platform = ''MacIntel'',
      userAgent = ''Mozilla/5.0 (Macintosh)'',
      has_ml = False,
      storage = Estimate (Some (300 * 1024 * 1024 * 1024)) (Some (1024 * 1024 * 1024)),
      createElement = Inr (),
      getContext = (\<lambda>n. Inr (Some sample_gl)),
      now = (\<lambda>k. 100 * real k),
      workerSetup = Inr (),
      spawn = (\<lambda>i. Responds),
      isoDate = ''2026-01-01T00:00:00.000Z''\<rparr>"

text \<open>
  The same desktop without a memory size, with 256 GB of free storage: the device of the
  specification's example (8 cores, 16 GB by the platform heuristic, 256 GB, a GPU).
\<close>

definition flagship_browser :: browser where
  "flagship_browser =
     sample_browser\<lparr>deviceMemory := None,
                    storage := Estimate (Some (257 * 1024 * 1024 * 1024)) (Some (1024 * 1024 * 1024))\<rparr>"




definition sample_result :: "jsint \<Rightarrow> jsint \<Rightarrow> device_class \<Rightarrow> GeekbenchResult" where
  "sample_result i f c =
     \<lparr>int8Score = i,
      fp16Score = f,
      fp32Score = Fin 1000,
      overallScore = Fin 3950,
      deviceClass = c,
      benchmarkDate = ''2026-01-01T00:00:00.000Z'',
      deviceInfo = \<lparr>processor = ''Intel'', gpu = Some ''WebGL GPU'', npu = None, ramGB = 8, cores = 8\<rparr>,
      singleCoreScore = Fin 10000,
      multiCoreScore = Fin 80000,
      aiScore = Fin 3950\<rparr>"

declare ilog2.simps [simp del] dec_nat.simps [simp del]

section \<open>Facts about the number model\<close>

lemma jgt_trans: "jgt c b \<Longrightarrow> jgt b a \<Longrightarrow> jgt c a"
  by (cases a; cases b; cases c) auto

lemma jge_jgt_trans: "jge c b \<Longrightarrow> jgt b a \<Longrightarrow> jgt c a"
  by (cases a; cases b; cases c) auto

lemma jgt_Fin_mono: "jgt w (Fin x) \<Longrightarrow> y \<le> x \<Longrightarrow> jgt w (Fin y)"
  by (cases w) auto

lemma digit_value_digit_char: "d < 10 \<Longrightarrow> digit_value (digit_char d) = d"
proof -
  assume "d < 10"
  then have "d \<in> {0, 1, 2, 3, 4, 5, 6, 7, 8, 9}" by auto
  then show ?thesis
    by (auto simp: digit_value_def digit_char_def)
qed

lemma dec_value_snoc: "dec_value (xs @ [c]) = 10 * dec_value xs + digit_value c"
  by (simp add: dec_value_def)

text \<open>Printing a natural number and reading the digits back gives the number.\<close>

lemma dec_value_dec_nat: "dec_value (dec_nat n) = n"
proof (induction n rule: dec_nat.induct)
  case (1 n)
  show ?case
  proof (cases "n < 10")
    case True
    then show ?thesis
      by (subst dec_nat.simps) (simp add: dec_value_def digit_value_digit_char)
  next
    case False
    with 1 have "dec_value (dec_nat (n div 10)) = n div 10" by simp
    with False show ?thesis
      by (subst dec_nat.simps) (simp add: dec_value_snoc digit_value_digit_char)
  qed
qed

lemma ilog2_bound: "n < 2 ^ Suc j \<Longrightarrow> ilog2 n \<le> j"
proof (induction j arbitrary: n)
  case 0
  then show ?case by (subst ilog2.simps) simp
next
  case (Suc j)
  show ?case
  proof (cases "n < 2")
    case True
    then show ?thesis by (subst ilog2.simps) simp
  next
    case False
    have "n div 2 < 2 ^ Suc j" using Suc.prems by simp
    then have "ilog2 (n div 2) \<le> j" by (rule Suc.IH)
    with False show ?thesis by (subst ilog2.simps) simp
  qed
qed

lemma round_half_even_1000: "\<bar>1000 * round_half_even a 1000 - a\<bar> \<le> 500"
  unfolding round_half_even_def Let_def by presburger

lemma round_half_even_nonneg: "0 \<le> a \<Longrightarrow> 0 \<le> round_half_even a 1000"
  by (auto simp: round_half_even_def Let_def pos_imp_zdiv_nonneg_iff)

lemma div1000_nonneg: "0 \<le> s \<Longrightarrow> 0 \<le> div1000 s"
  by (simp add: div1000_def Let_def round_half_even_nonneg)

text \<open>
  The tenths that \<^verbatim>\<open>toFixed(1)\<close> prints for \<^verbatim>\<open>score / 1000\<close> are at most one
  twentieth away from the exact quotient: the rounding of the division moves ten times
  the quotient by less than a hundredth, and \<open>score / 100\<close> is a multiple of a hundredth.
\<close>

lemma fixed1_near:
  fixes s :: int
  assumes lo: "10000 \<le> s" and hi: "s < 2 ^ 53"
  defines "n \<equiv> \<lfloor>10 * div1000 s + 1 / 2\<rfloor>"
  shows "0 \<le> n \<and> \<bar>100 * n - s\<bar> \<le> 50"
proof -
  define k where "k = 52 - ilog2 (nat (s div 1000))"
  define m where "m = round_half_even (s * 2 ^ k) 1000"
  define y :: real where "y = of_int m / 2 ^ k"
  have x: "div1000 s = y"
    by (simp add: div1000_def k_def m_def y_def Let_def)
  have "nat (s div 1000) < 2 ^ Suc 43"
    using lo hi by simp
  then have "ilog2 (nat (s div 1000)) \<le> 43" by (rule ilog2_bound)
  then have k9: "9 \<le> k" by (simp add: k_def)
  have p: "(512::real) \<le> 2 ^ k"
    using power_increasing[OF k9, of "2::real"] by simp
  have "\<bar>1000 * m - s * 2 ^ k\<bar> \<le> 500"
    unfolding m_def by (rule round_half_even_1000)
  then have "\<bar>of_int (1000 * m - s * 2 ^ k) :: real\<bar> \<le> 500"
    by (metis of_int_abs of_int_le_iff of_int_numeral)
  then have e: "\<bar>1000 * of_int m - of_int s * 2 ^ k :: real\<bar> \<le> 500" by simp
  have "\<bar>1000 * of_int m - of_int s * 2 ^ k :: real\<bar> / 2 ^ k \<le> 500 / 512"
    using e p by (intro frac_le) auto
  moreover have "1000 * y - of_int s = (1000 * of_int m - of_int s * 2 ^ k) / (2 ^ k :: real)"
    by (simp add: y_def field_simps)
  ultimately have "\<bar>1000 * y - of_int s\<bar> \<le> 500 / 512"
    by simp
  then have d: "1000 * y - of_int s \<le> 500 / 512" "- (500 / 512) \<le> 1000 * y - of_int s"
    by linarith+
  have f1: "of_int n \<le> 10 * y + 1 / 2"
    unfolding n_def x by (rule of_int_floor_le)
  have f2: "10 * y + 1 / 2 < of_int n + 1"
    unfolding n_def x by linarith
  have "(of_int (100 * n - s) :: real) < 51" "(-51 :: real) < of_int (100 * n - s)"
    using d f1 f2 by auto
  then have "100 * n - s < 51" "-51 < 100 * n - s"
    by linarith+
  then show ?thesis using lo by linarith
qed

section \<open>Facts about the probes\<close>

lemma spawn_all_Responds: "(\<forall>w \<in> set ws. w = Responds) \<Longrightarrow> spawn_all ws = Inr True"
  by (induction ws) auto


text \<open>When every worker answers, the probe scores the measured duration.\<close>

lemma testMultiCore_success:
  assumes "workerSetup b = Inr ()" and "\<forall>i<n. spawn b i = Responds"
  shows "testMultiCore n b t =
     Some (Math_round (jdiv (Fin (real n * 10000)) (jdiv (Fin (now b (t + 1) - now b t)) (Fin 100))),
           t + 2)"
proof -
  have "spawn_all (map (spawn b) [0..<n]) = Inr True"
    using assms(2) by (intro spawn_all_Responds) auto
  then show ?thesis
    by (simp add: testMultiCore_def testMultiCore_try_def assms(1) Let_def)
qed



text \<open>A run completes when the worker set-up succeeds and every worker answers.\<close>

lemma runAIBenchmark_returns:
  assumes "workerSetup b = Inr ()" and "\<forall>i<cores_or_2 b. spawn b i = Responds"
  shows "\<exists>r t'. runAIBenchmark b t = Some (r, t')"
  using testMultiCore_success[OF assms]
  by (simp add: runAIBenchmark_def Let_def split_def)

lemma sample_run: "\<exists>r t'. runAIBenchmark sample_browser 0 = Some (r, t')"
  by (rule runAIBenchmark_returns) (simp_all add: sample_browser_def)

lemma sample_scores:
  "testINT8Quantization sample_browser 0 = (Fin 50000, 2)"
  "testFP16Quantization sample_browser 2 = (Fin 4000, 4)"
  "testFP32Quantization sample_browser 4 = (Fin 30000, 6)"
  "testSingleCore sample_browser 6 = (Fin 10000, 8)"
  by (simp_all add: sample_browser_def sample_gl_def testINT8Quantization_def
      testFP16Quantization_def testFP16_try_def first_context_def testFP32Quantization_def
      testSingleCore_def timed_score_def)

lemma sample_multi:
  "testMultiCore (cores_or_2 sample_browser) sample_browser 8 = Some (Fin 80000, 10)"
  using testMultiCore_success[of sample_browser "cores_or_2 sample_browser" 8]
  by (simp add: sample_browser_def cores_or_2_def)

text \<open>The scores of the sample run.\<close>

lemma sample_run_scores:
  "\<exists>r. runAIBenchmark sample_browser 0 = Some (r, 10) \<and>
     int8Score r = Fin 50000 \<and> fp16Score r = Fin 4000 \<and> fp32Score r = Fin 30000 \<and>
     overallScore r = Fin 32200 \<and> aiScore r = Fin 32200 \<and> deviceClass r = flagship"
  by (simp add: runAIBenchmark_def Let_def sample_scores sample_multi classifyAIDevice_def
      weightedScore_def)

section \<open>Facts about the recommendation\<close>

text \<open>The plan is read off the class before any message is put together.\<close>

lemma plan_of_class:
  "plan (getRecommendation r) =
     (case deviceClass r of
        flagship \<Rightarrow> free
      | high_end \<Rightarrow> compute
      | mid_range \<Rightarrow> compute
      | entry_level \<Rightarrow> premium)"
  unfolding getRecommendation_def Let_def
  by (cases "deviceClass r") (simp_all only: device_class.case Recommendation.select_convs)

section \<open>Facts about device detection\<close>

lemma checkGPUAvailability_returns: "\<exists>v. checkGPUAvailability b = Inr v"
  by (cases "checkGPUAvailability_try b") (auto simp: checkGPUAvailability_def)

lemma estimateStorage_returns: "\<exists>v. estimateStorage b = Inr v"
  by (simp add: estimateStorage_def Let_def split: storage_api.split)

lemma sample_lower:
  "toLowerCase ''Mozilla/5.0 (Macintosh)'' = ''mozilla/5.0 (macintosh)''"
  "toLowerCase ''mozilla/5.0 (macintosh)'' = ''mozilla/5.0 (macintosh)''"
  "toLowerCase ''MacIntel'' = ''macintel''"
  "toLowerCase ''Apple M1'' = ''apple m1''"
  by (simp_all add: toLowerCase_def lower_char_def)

lemma sample_ua: "getDeviceType sample_browser = desktop" "getOS sample_browser = ''macOS''"
  by (simp_all add: getDeviceType_def getOS_def sample_browser_def test_i_def sample_lower
      line_terminator_def)

text \<open>The example of the specification, end to end.\<close>

lemma detectDeviceCapabilities_example:
  "detectDeviceCapabilities flagship_browser =
     Inr \<lparr>type = desktop, os = ''macOS'', cpuCores = 8, ramGB = 16, gpuAvailable = True,
          storageGB = 256, isFlagship = True, recommendedPlan = free\<rparr>"
proof -
  have u: "getDeviceType flagship_browser = desktop" "getOS flagship_browser = ''macOS''"
    using sample_ua by (simp_all add: getDeviceType_def getOS_def flagship_browser_def)
  have g: "checkGPUAvailability flagship_browser = Inr True"
    by (simp add: flagship_browser_def sample_browser_def sample_gl_def checkGPUAvailability_def
        checkGPUAvailability_try_def first_context_def sample_lower)
  have st: "estimateStorage flagship_browser = Inr 256"
    by (simp add: flagship_browser_def sample_browser_def estimateStorage_def or_default_def)
  have ram: "estimateRAM flagship_browser = 16" "cores_or_2 flagship_browser = 8"
    by (simp_all add: flagship_browser_def sample_browser_def estimateRAM_def cores_or_2_def
        sample_lower)
  have m: "deviceMemory flagship_browser = None"
    by (simp add: flagship_browser_def)
  show ?thesis
    by (simp add: detectDeviceCapabilities_def u g st ram m)
qed

lemma detectDeviceCapabilities_returns: "\<exists>s. detectDeviceCapabilities b = Inr s"
proof -
  obtain g where g: "checkGPUAvailability b = Inr g"
    using checkGPUAvailability_returns by blast
  obtain v where v: "estimateStorage b = Inr v"
    using estimateStorage_returns by blast
  show ?thesis
    by (simp add: detectDeviceCapabilities_def Let_def g v)
qed

section \<open>The claims\<close>

subsection \<open>The overall score\<close>



subsection \<open>The thresholds of the classifier\<close>



text \<open>The example of the specification: 6000, 2500, 1000 weigh 3950, which is high-end.\<close>

lemma classifyAIDevice_example:
  "weightedScore (Fin 6000) (Fin 2500) (Fin 1000) = Fin 3950 \<and>
   classifyAIDevice (Fin 6000) (Fin 2500) (Fin 1000) = high_end"
  by (simp add: classifyAIDevice_def weightedScore_def)

text \<open>Each class, by the scores that get it.\<close>

lemma classifyAIDevice_classes:
  fixes int8 fp16 fp32 :: jsnum
  defines "w \<equiv> weightedScore int8 fp16 fp32"
  shows "(classifyAIDevice int8 fp16 fp32 = flagship) =
           (jgt w (Fin 4000) \<and> jgt int8 (Fin 5000))"
    and "(classifyAIDevice int8 fp16 fp32 = high_end) =
           (\<not> (jgt w (Fin 4000) \<and> jgt int8 (Fin 5000)) \<and> jgt w (Fin 2500) \<and> jgt int8 (Fin 3000))"
    and "(classifyAIDevice int8 fp16 fp32 = mid_range) =
           (\<not> (jgt w (Fin 4000) \<and> jgt int8 (Fin 5000)) \<and>
            \<not> (jgt w (Fin 2500) \<and> jgt int8 (Fin 3000)) \<and> jgt w (Fin 1500))"
    and "(classifyAIDevice int8 fp16 fp32 = entry_level) = (\<not> jgt w (Fin 1500))"
  using jgt_Fin_mono[of w 2500 1500] jgt_Fin_mono[of w 4000 1500]
  by (auto simp: classifyAIDevice_def Let_def w_def)

subsection \<open>The flagship test and the recommended plan\<close>

text \<open>
  C3. For every \<open>DeviceSpecs\<close> that \<open>detectDeviceCapabilities\<close> returns, \<open>isFlagship\<close>
  holds if and only if \<open>cpuCores \<ge> 4\<close>, \<open>ramGB \<ge> 6\<close>, \<open>storageGB \<ge> 64\<close> and
  \<open>gpuAvailable\<close>; the recommended plan is free exactly when \<open>isFlagship\<close> holds, else
  compute when \<open>cpuCores \<ge> 4\<close> and \<open>ramGB \<ge> 4\<close>, else premium.
\<close>

theorem detectDeviceCapabilities_flagship:
  assumes "detectDeviceCapabilities b = Inr s"
  shows "(isFlagship s \<longleftrightarrow>
            4 \<le> cpuCores s \<and> 6 \<le> DeviceSpecs.ramGB s \<and> 64 \<le> storageGB s \<and> gpuAvailable s) \<and>
         (recommendedPlan s = free \<longleftrightarrow> isFlagship s) \<and>
         recommendedPlan s =
           (if isFlagship s then free
            else if 4 \<le> cpuCores s \<and> 4 \<le> DeviceSpecs.ramGB s then compute
            else premium)"
proof -
  obtain g where g: "checkGPUAvailability b = Inr g"
    using checkGPUAvailability_returns by blast
  obtain v where v: "estimateStorage b = Inr v"
    using estimateStorage_returns by blast
  show ?thesis
    using assms by (auto simp: detectDeviceCapabilities_def Let_def g v)
qed

theorem detectDeviceCapabilities_flagship_witness:
  "\<exists>s. detectDeviceCapabilities flagship_browser = Inr s \<and>
     cpuCores s = 8 \<and> DeviceSpecs.ramGB s = 16 \<and> storageGB s = 256 \<and> gpuAvailable s \<and>
     isFlagship s \<and> recommendedPlan s = free \<and>
     (isFlagship s \<longleftrightarrow>
        4 \<le> cpuCores s \<and> 6 \<le> DeviceSpecs.ramGB s \<and> 64 \<le> storageGB s \<and> gpuAvailable s) \<and>
     (recommendedPlan s = free \<longleftrightarrow> isFlagship s)"
proof -
  define s where "s = \<lparr>type = desktop, os = ''macOS'', cpuCores = 8, ramGB = 16,
    gpuAvailable = True, storageGB = 256, isFlagship = True, recommendedPlan = free\<rparr>"
  have h: "detectDeviceCapabilities flagship_browser = Inr s"
    unfolding s_def by (rule detectDeviceCapabilities_example)
  have f: "cpuCores s = 8" "DeviceSpecs.ramGB s = 16" "storageGB s = 256" "gpuAvailable s"
    "isFlagship s" "recommendedPlan s = free"
    by (simp_all add: s_def)
  show ?thesis
    using h f detectDeviceCapabilities_flagship[OF h] by blast
qed

subsection \<open>Monotonicity of the class\<close>

text \<open>
  C4. If the weighted score of a second triple of probe scores is strictly greater than
  that of a first and its INT8 score is at least the first's, then the class of the
  second is not lower than the class of the first in the order
  entry-level < mid-range < high-end < flagship.
\<close>

theorem classifyAIDevice_monotone:
  assumes w: "jgt (weightedScore i2 f2 g2) (weightedScore i1 f1 g1)"
    and i: "jge i2 i1"
  shows "class_rank (classifyAIDevice i1 f1 g1) \<le> class_rank (classifyAIDevice i2 f2 g2)"
proof -
  have up: "jgt (weightedScore i1 f1 g1) c \<Longrightarrow> jgt (weightedScore i2 f2 g2) c" for c
    using w by (rule jgt_trans)
  have upi: "jgt i1 c \<Longrightarrow> jgt i2 c" for c
    using i by (rule jge_jgt_trans)
  show ?thesis
    unfolding classifyAIDevice_def Let_def
    using up upi by auto
qed

theorem classifyAIDevice_monotone_witness:
  "jgt (weightedScore (Fin 6000) (Fin 3000) (Fin 1000))
       (weightedScore (Fin 6000) (Fin 2500) (Fin 1000)) \<and>
   jge (Fin 6000) (Fin (6000::real)) \<and>
   classifyAIDevice (Fin 6000) (Fin 2500) (Fin 1000) = high_end \<and>
   classifyAIDevice (Fin 6000) (Fin 3000) (Fin 1000) = flagship \<and>
   class_rank (classifyAIDevice (Fin 6000) (Fin 2500) (Fin 1000))
     \<le> class_rank (classifyAIDevice (Fin 6000) (Fin 3000) (Fin 1000))"
proof -
  have w: "jgt (weightedScore (Fin 6000) (Fin 3000) (Fin 1000))
               (weightedScore (Fin 6000) (Fin 2500) (Fin 1000))"
    by (simp add: weightedScore_def)
  have i: "jge (Fin 6000) (Fin (6000::real))" by simp
  have c: "classifyAIDevice (Fin 6000) (Fin 2500) (Fin 1000) = high_end"
          "classifyAIDevice (Fin 6000) (Fin 3000) (Fin 1000) = flagship"
    by (simp_all add: classifyAIDevice_def weightedScore_def)
  show ?thesis
    using w i c classifyAIDevice_monotone[OF w i] by blast
qed

subsection \<open>Detection never raises\<close>



subsection \<open>Saving falls back to the local store\<close>



subsection \<open>The fallback of the multi-core probe\<close>




subsection \<open>The plan depends on the class alone\<close>

text \<open>
  C8. The plan that \<open>getRecommendation\<close> returns is a function of \<open>deviceClass\<close> alone:
  two results of the same class get the same plan, whatever their other fields. The
  mapping is flagship to free, high-end and mid-range to compute, entry-level to
  premium. The function reads its argument and nothing else, and writes nothing.
\<close>

theorem getRecommendation_plan:
  "(deviceClass r1 = deviceClass r2 \<longrightarrow>
      plan (getRecommendation r1) = plan (getRecommendation r2)) \<and>
   plan (getRecommendation r) =
     (case deviceClass r of
        flagship \<Rightarrow> free
      | high_end \<Rightarrow> compute
      | mid_range \<Rightarrow> compute
      | entry_level \<Rightarrow> premium)"
  using plan_of_class[of r1] plan_of_class[of r2] plan_of_class[of r] by simp

theorem getRecommendation_plan_witness:
  "deviceClass (sample_result (Fin 6000) (Fin 2500) high_end) =
     deviceClass (sample_result (Fin 3100) PInf high_end) \<and>
   sample_result (Fin 6000) (Fin 2500) high_end \<noteq> sample_result (Fin 3100) PInf high_end \<and>
   plan (getRecommendation (sample_result (Fin 6000) (Fin 2500) high_end)) =
     plan (getRecommendation (sample_result (Fin 3100) PInf high_end)) \<and>
   plan (getRecommendation (sample_result (Fin 6000) (Fin 2500) high_end)) = compute"
proof -
  have c: "deviceClass (sample_result (Fin 6000) (Fin 2500) high_end) =
      deviceClass (sample_result (Fin 3100) PInf high_end)"
    "deviceClass (sample_result (Fin 6000) (Fin 2500) high_end) = high_end"
    by (simp_all add: sample_result_def)
  have n: "sample_result (Fin 6000) (Fin 2500) high_end \<noteq> sample_result (Fin 3100) PInf high_end"
    by (simp add: sample_result_def)
  note t = getRecommendation_plan[of "sample_result (Fin 6000) (Fin 2500) high_end"
      "sample_result (Fin 3100) PInf high_end" "sample_result (Fin 6000) (Fin 2500) high_end"]
  have p: "plan (getRecommendation (sample_result (Fin 6000) (Fin 2500) high_end)) =
      plan (getRecommendation (sample_result (Fin 3100) PInf high_end))"
    using c(1) t by blast
  have q: "plan (getRecommendation (sample_result (Fin 6000) (Fin 2500) high_end)) = compute"
    using c(2) t by simp
  show ?thesis
    using c(1) n p q by blast
qed

text \<open>The message of a high-end result, for the record.\<close>

lemma getRecommendation_message_example:
  "message (getRecommendation (sample_result (Fin 6000) (Fin 2500) high_end)) =
     ''Great quantization support! INT8: 6000. Local INT8 models recommended for optimal performance.''"
  by (simp add: getRecommendation_def sample_result_def js_or_def formatScore_def dec_nat.simps
      digit_char_def)

subsection \<open>Formatting a score\<close>

text \<open>
  C9. \<open>formatScore\<close> formats every score of 10000 and more as the score divided by
  1000, printed with one decimal place and followed by K, and every score below 10000
  as its plain decimal string; \<open>formatScore(9999)\<close> is 9999, \<open>formatScore(10000)\<close> is
  10.0K and \<open>formatScore(25500)\<close> is 25.5K. For an integer score \<open>s\<close> from 10000
  up to \<open>2^53\<close> the printed tenths \<open>n\<close> are a nearest tenth of \<open>s / 1000\<close>, and a
  score from 0 to 9999 prints as its digits, which read back as the score.
\<close>

theorem formatScore_format:
  "formatScore (Fin 9999) = ''9999'' \<and>
   formatScore (Fin 10000) = ''10.0K'' \<and>
   formatScore (Fin 25500) = ''25.5K'' \<and>
   (jge score (Fin 10000) \<longrightarrow> formatScore score = toFixed1 (jdiv1000 score) @ ''K'') \<and>
   (\<not> jge score (Fin 10000) \<longrightarrow> formatScore score = toString score) \<and>
   (10000 \<le> s \<and> s < 2 ^ 53 \<longrightarrow>
      (\<exists>n. formatScore (Fin s) = dec_nat (n div 10) @ ''.'' @ [digit_char (n mod 10)] @ ''K'' \<and>
            \<bar>100 * int n - s\<bar> \<le> 50)) \<and>
   (0 \<le> s \<and> s < 10000 \<longrightarrow>
      formatScore (Fin s) = dec_nat (nat s) \<and> dec_value (formatScore (Fin s)) = nat s)"
proof -
  have ex: "formatScore (Fin 9999) = ''9999''" "formatScore (Fin 10000) = ''10.0K''"
    "formatScore (Fin 25500) = ''25.5K''"
    by (simp_all add: formatScore_def dec_nat.simps ilog2.simps digit_char_def div1000_def
        round_half_even_def fixed1_digits_def)
  have big: "\<exists>n. formatScore (Fin s) = dec_nat (n div 10) @ ''.'' @ [digit_char (n mod 10)] @ ''K'' \<and>
      \<bar>100 * int n - s\<bar> \<le> 50" if "10000 \<le> s" "s < 2 ^ 53"
  proof -
    define z where "z = \<lfloor>10 * div1000 s + 1 / 2\<rfloor>"
    have z: "0 \<le> z \<and> \<bar>100 * z - s\<bar> \<le> 50"
      unfolding z_def using that by (rule fixed1_near)
    have "0 \<le> div1000 s"
      using that by (simp add: div1000_nonneg)
    then have "formatScore (Fin s) =
        dec_nat (nat z div 10) @ ''.'' @ [digit_char (nat z mod 10)] @ ''K''"
      using that by (simp add: formatScore_def fixed1_digits_def z_def Let_def)
    moreover have "\<bar>100 * int (nat z) - s\<bar> \<le> 50"
      using z by simp
    ultimately show ?thesis by blast
  qed
  have small: "formatScore (Fin s) = dec_nat (nat s) \<and> dec_value (formatScore (Fin s)) = nat s"
    if "0 \<le> s" "s < 10000"
    using that by (simp add: formatScore_def dec_value_dec_nat)
  show ?thesis
    using ex big small by (simp add: formatScore_def)
qed

theorem formatScore_format_witness:
  "jge (Fin 12345) (Fin (10000::int)) \<and> formatScore (Fin 12345) = ''12.3K'' \<and>
   (\<exists>n. formatScore (Fin 12345) = dec_nat (n div 10) @ ''.'' @ [digit_char (n mod 10)] @ ''K'' \<and>
         \<bar>100 * int n - 12345\<bar> \<le> 50) \<and>
   \<not> jge (Fin 42) (Fin (10000::int)) \<and> formatScore (Fin 42) = ''42'' \<and>
   dec_value (formatScore (Fin 42)) = 42"
proof -
  have e: "formatScore (Fin 12345) = ''12.3K''" "formatScore (Fin 42) = ''42''"
    by (simp_all add: formatScore_def dec_nat.simps ilog2.simps digit_char_def div1000_def
        round_half_even_def fixed1_digits_def)
  have r: "(10000::int) \<le> 12345 \<and> (12345::int) < 2 ^ 53" "(0::int) \<le> 42 \<and> (42::int) < 10000"
    by simp_all
  have g: "jge (Fin 12345) (Fin (10000::int))" "\<not> jge (Fin 42) (Fin (10000::int))"
    by simp_all
  have n: "\<exists>n. formatScore (Fin 12345) =
        dec_nat (n div 10) @ ''.'' @ [digit_char (n mod 10)] @ ''K'' \<and>
      \<bar>100 * int n - 12345\<bar> \<le> 50"
    using r(1) formatScore_format[of "Fin 12345" 12345] by blast
  have "dec_value (formatScore (Fin 42)) = nat 42"
    using r(2) formatScore_format[of "Fin 42" 42] by blast
  then have v: "dec_value (formatScore (Fin 42)) = 42" by simp
  show ?thesis
    using e g n v by blast
qed

subsection \<open>The legacy score\<close>

text \<open>
  C10. Every result that \<open>runAIBenchmark\<close> returns has \<open>aiScore = overallScore\<close>,
  whatever the probes measured.
\<close>

theorem runAIBenchmark_aiScore:
  assumes "runAIBenchmark b t = Some (r, t')"
  shows "aiScore r = overallScore r"
  using assms
  by (auto simp: runAIBenchmark_def Let_def split: prod.splits option.splits)

theorem runAIBenchmark_aiScore_witness:
  "\<exists>r. runAIBenchmark sample_browser 0 = Some (r, 10) \<and> overallScore r = Fin 32200 \<and>
     aiScore r = overallScore r"
proof -
  obtain r where h: "runAIBenchmark sample_browser 0 = Some (r, 10)"
    and o: "overallScore r = Fin 32200"
    using sample_run_scores by blast
  show ?thesis using h o runAIBenchmark_aiScore[OF h] by blast
qed

end
